theory Spec2Isabelle
  imports Main
begin

section \<open>Toolkit strings and string lists\<close>

text \<open>
  The sources work on the toolkit's \<^verbatim>\<open>QString\<close> and \<^verbatim>\<open>QStringList\<close>. A string is a
  list of characters, a string list a list of strings. Only the operations the
  application calls are modelled: \<^verbatim>\<open>QStringList::mid\<close>, \<^verbatim>\<open>QStringList::join\<close>,
  \<^verbatim>\<open>QString::split\<close> (default behaviour: empty parts are kept, the comparison is case
  sensitive) and \<^verbatim>\<open>QStringList::contains\<close>, which is list membership.
\<close>

type_synonym qstring = string

text \<open>\<^verbatim>\<open>list.mid(pos)\<close>: the elements from position \<open>pos\<close> on, none when \<open>pos\<close> is past the end.\<close>

definition QStringList_mid :: "nat \<Rightarrow> qstring list \<Rightarrow> qstring list" where
  "QStringList_mid pos xs = drop pos xs"

text \<open>\<^verbatim>\<open>list.join(sep)\<close>: the elements in order, \<open>sep\<close> between each two neighbours.\<close>

fun QStringList_join :: "qstring \<Rightarrow> qstring list \<Rightarrow> qstring" where
  "QStringList_join sep [] = []"
| "QStringList_join sep [x] = x"
| "QStringList_join sep (x # y # ys) = x @ sep @ QStringList_join sep (y # ys)"

text \<open>
  \<^verbatim>\<open>str.split(sep)\<close> for a non-empty separator scans from the left; \<open>cur\<close> holds, reversed,
  the characters of the part being read. At an occurrence of \<open>sep\<close> the part is closed
  and the scan goes on after the separator; the end of the string closes the last part.
\<close>

function split_from :: "qstring \<Rightarrow> qstring \<Rightarrow> qstring \<Rightarrow> qstring list" where
  "split_from sep cur s =
     (if s = [] then [rev cur]
      else if sep \<noteq> [] \<and> take (length sep) s = sep
        then rev cur # split_from sep [] (drop (length sep) s)
      else split_from sep (hd s # cur) (tl s))"
  by pat_completeness auto
termination
  by (relation "measure (\<lambda>(sep, cur, s). length s)") auto

text \<open>
  With an empty separator the toolkit returns an empty string, then every character
  as a string of its own, then another empty string.
\<close>

definition QString_split :: "qstring \<Rightarrow> qstring \<Rightarrow> qstring list" where
  "QString_split sep s =
     (if sep = [] then [] # map (\<lambda>c. [c]) s @ [[]] else split_from sep [] s)"

section \<open>Compile-time constants\<close>

text \<open>
  The macros and constants the sources use are defined in a header that is not part
  of the sources at hand, so every function that reads one takes them as a parameter:
  the application version, the two single-instance tokens, the separator of the
  single-instance message, and the settings group and key of the first-run flag
  (\<^verbatim>\<open>GROUP(General)\<close> and \<^verbatim>\<open>General::FirstRun\<close>).
\<close>

record definitions =
  APP_VERSION :: qstring
  APP_IS_RUNNING :: qstring
  APP_QUIT_INSTANCE :: qstring
  ARGUMENTS_LIST_SEPARATOR :: qstring
  General_ID :: qstring
  General_FirstRun :: qstring

text \<open>
  Sample values for concrete runs: a line feed as separator and distinct non-empty
  tokens.
\<close>

definition sample_definitions :: definitions where
  "sample_definitions =
     \<lparr>APP_VERSION = ''0.9.13'',
      APP_IS_RUNNING = ''app_is_running'',
      APP_QUIT_INSTANCE = ''-q'',
      ARGUMENTS_LIST_SEPARATOR = [CHR 0x0A],
      General_ID = ''main'',
      General_FirstRun = ''first_run''\<rparr>"

section \<open>ApplicationException\<close>

text \<open>
  \<^verbatim>\<open>applicationexception.cpp\<close>: the class has one field, set by the constructor, and one
  member function, the constant accessor \<^verbatim>\<open>message()\<close>.
\<close>

record ApplicationException =
  m_message :: qstring

definition ApplicationException_ctor :: "qstring \<Rightarrow> ApplicationException" where
  "ApplicationException_ctor message = \<lparr>m_message = message\<rparr>"

text \<open>
  A call of \<^verbatim>\<open>message()\<close> returns the stored string; the object it was called on is
  returned with it, so that a change of the object would show.
\<close>

definition message :: "ApplicationException \<Rightarrow> qstring \<times> ApplicationException" where
  "message e = (m_message e, e)"

text \<open>\<open>n\<close> calls of \<^verbatim>\<open>message()\<close> in a row: the strings returned and the object left.\<close>

fun message_calls :: "nat \<Rightarrow> ApplicationException \<Rightarrow> qstring list \<times> ApplicationException" where
  "message_calls 0 e = ([], e)"
| "message_calls (Suc n) e =
     (case message e of (r, e') \<Rightarrow>
        (case message_calls n e' of (rs, e'') \<Rightarrow> (r # rs, e'')))"

section \<open>Settings\<close>

text \<open>
  The settings object is a store of variants under a group and a key. The classes
  \<^verbatim>\<open>Settings\<close> and \<^verbatim>\<open>QVariant\<close> are outside the sources at hand; what the application
  relies on is modelled: a lookup that returns the given default when the key is
  absent, a write, and the conversion of a variant to a truth value (a boolean is
  itself, a number is true when it is not zero, a string is false when its lower-case
  content is empty, \<^verbatim>\<open>0\<close> or \<^verbatim>\<open>false\<close>, an invalid variant is false).
\<close>

datatype QVariant = QVInvalid | QVBool bool | QVInt int | QVString qstring

definition toLower :: "char \<Rightarrow> char" where
  "toLower c =
     (let n = (of_char c :: nat) in if 65 \<le> n \<and> n \<le> 90 then char_of (n + 32) else c)"

fun toBool :: "QVariant \<Rightarrow> bool" where
  "toBool QVInvalid = False"
| "toBool (QVBool b) = b"
| "toBool (QVInt i) = (i \<noteq> 0)"
| "toBool (QVString s) =
     (let l = map toLower s in \<not> (l = [] \<or> l = ''0'' \<or> l = ''false''))"

type_synonym Settings = "qstring \<times> qstring \<rightharpoonup> QVariant"

definition Settings_value :: "Settings \<Rightarrow> qstring \<Rightarrow> qstring \<Rightarrow> QVariant \<Rightarrow> QVariant" where
  "Settings_value st section_id key default_value =
     (case st (section_id, key) of None \<Rightarrow> default_value | Some v \<Rightarrow> v)"

definition Settings_setValue :: "Settings \<Rightarrow> qstring \<Rightarrow> qstring \<Rightarrow> QVariant \<Rightarrow> Settings" where
  "Settings_setValue st section_id key v = st((section_id, key) \<mapsto> v)"

section \<open>Application\<close>

text \<open>
  \<^verbatim>\<open>application.cpp\<close>. The state of the application object is the record below: the
  command line (\<^verbatim>\<open>arguments()\<close>), the members the modelled functions read or write, the
  toolkit's quit-on-last-window-closed flag, and a trace. A pointer member is an
  optional object, \<open>None\<close> for \<^verbatim>\<open>nullptr\<close>.

  The classes behind the pointers are outside the sources at hand. Of the main form
  the model keeps the one answer the application reads, the result of \<^verbatim>\<open>close()\<close> (a form
  may refuse to close). Every call the application makes on a collaborator, and every
  signal it emits, is appended to the trace, so the order of the calls can be stated.
  Debug output (\<^verbatim>\<open>qDebug\<close>) is not modelled.
\<close>

record FormMain =
  close_accepted :: bool

record SystemTrayIcon =
  toolTip :: qstring

datatype event =
    SendMessage qstring
  | LoadFilesFromArgs "qstring list"
  | MainFormDisplay
  | MainFormClose
  | Quit
  | DeleteTrayIcon
  | DataSaveRequested
  | SessionRelease
  | SessionCancel

record Application =
  arguments :: "qstring list"
  m_settings :: Settings
  m_mainForm :: "FormMain option"
  m_trayIcon :: "SystemTrayIcon option"
  m_shouldRestart :: bool
  m_isQuitting :: bool
  quitOnLastWindowClosed :: bool
  trace :: "event list"

text \<open>Dereferencing a null pointer is an error value of the model.\<close>

datatype error = NullPointer

definition emit :: "event \<Rightarrow> Application \<Rightarrow> Application" where
  "emit e s = s\<lparr>trace := trace s @ [e]\<rparr>"

text \<open>The events a call added: the trace of the state after it, without the trace before.\<close>

definition new_events :: "Application \<Rightarrow> Application \<Rightarrow> event list" where
  "new_events s s' = drop (length (trace s)) (trace s')"

text \<open>
  \<^verbatim>\<open>isRunning()\<close> builds the message from the is-running token and the arguments after
  the program name, joins it with the separator and hands it to \<^verbatim>\<open>sendMessage\<close>, whose
  answer (did a running peer take the message) it returns. \<^verbatim>\<open>sendMessage\<close> belongs to
  the single-instance base class and is a parameter.
\<close>

definition isRunning_message :: "definitions \<Rightarrow> Application \<Rightarrow> qstring" where
  "isRunning_message defs s =
     QStringList_join (ARGUMENTS_LIST_SEPARATOR defs)
       ([APP_IS_RUNNING defs] @ QStringList_mid 1 (arguments s))"

definition isRunning :: "definitions \<Rightarrow> (qstring \<Rightarrow> bool) \<Rightarrow> Application \<Rightarrow> bool \<times> Application" where
  "isRunning defs sendMessage s =
     (sendMessage (isRunning_message defs s), emit (SendMessage (isRunning_message defs s)) s)"

text \<open>
  \<^verbatim>\<open>isFirstRun(version)\<close>. The second component of the result lists the settings keys
  the call read.
\<close>

definition isFirstRun :: "definitions \<Rightarrow> Application \<Rightarrow> qstring \<Rightarrow> bool \<times> (qstring \<times> qstring) list" where
  "isFirstRun defs s version =
     (if version = APP_VERSION defs
      then (toBool (Settings_value (m_settings s) (General_ID defs)
                      (General_FirstRun defs @ [CHR ''_''] @ version) (QVBool True)),
            [(General_ID defs, General_FirstRun defs @ [CHR ''_''] @ version)])
      else (False, []))"

text \<open>\<^verbatim>\<open>eliminateFirstRun(version)\<close> stores false under the key of that version.\<close>

definition eliminateFirstRun :: "definitions \<Rightarrow> qstring \<Rightarrow> Application \<Rightarrow> Application" where
  "eliminateFirstRun defs version s =
     s\<lparr>m_settings := Settings_setValue (m_settings s) (General_ID defs)
                       (General_FirstRun defs @ [CHR ''_''] @ version) (QVBool False)\<rparr>"

text \<open>
  \<^verbatim>\<open>deleteTrayIcon()\<close>. Inside the guard the main form is dereferenced without a check,
  then the tray icon is deleted and the pointer cleared.
\<close>

definition deleteTrayIcon :: "Application \<Rightarrow> error + Application" where
  "deleteTrayIcon s =
     (if m_trayIcon s \<noteq> None then
        (case m_mainForm s of
           None \<Rightarrow> Inl NullPointer
         | Some f \<Rightarrow>
             Inr ((emit DeleteTrayIcon (emit MainFormDisplay s))
                    \<lparr>m_trayIcon := None, quitOnLastWindowClosed := True\<rparr>))
      else Inr s)"

text \<open>Two calls in a row; an error of the first call ends the run.\<close>

definition deleteTrayIcon_twice :: "Application \<Rightarrow> error + Application" where
  "deleteTrayIcon_twice s =
     (case deleteTrayIcon s of Inl e \<Rightarrow> Inl e | Inr s' \<Rightarrow> deleteTrayIcon s')"

text \<open>\<^verbatim>\<open>setMainForm(main_form)\<close>.\<close>

definition setMainForm :: "FormMain option \<Rightarrow> Application \<Rightarrow> Application" where
  "setMainForm main_form s = s\<lparr>m_mainForm := main_form\<rparr>"

text \<open>
  \<^verbatim>\<open>quitApplication()\<close>. The quitting flag is raised before the form is asked to close,
  so the form sees it while it decides.
\<close>

definition quitApplication :: "Application \<Rightarrow> Application" where
  "quitApplication s =
     (case m_mainForm s of
        None \<Rightarrow> s
      | Some f \<Rightarrow>
          (let s1 = emit MainFormClose (s\<lparr>m_isQuitting := True\<rparr>);
               closed = close_accepted f
           in if closed then emit Quit s1
              else s1\<lparr>m_isQuitting := False, m_shouldRestart := False\<rparr>))"

text \<open>\<^verbatim>\<open>restart()\<close>.\<close>

definition restart :: "Application \<Rightarrow> Application" where
  "restart s = quitApplication (s\<lparr>m_shouldRestart := True\<rparr>)"

text \<open>
  \<^verbatim>\<open>processExecutionMessage(message)\<close>. The text application is created by the
  constructor and never reset, so only the main form can be null here; the files are
  handed over before the form is dereferenced.
\<close>

definition processExecutionMessage :: "definitions \<Rightarrow> qstring \<Rightarrow> Application \<Rightarrow> error + Application" where
  "processExecutionMessage defs msg s =
     (let messages = QString_split (ARGUMENTS_LIST_SEPARATOR defs) msg in
      if APP_QUIT_INSTANCE defs \<in> set messages then Inr (quitApplication s)
      else if APP_IS_RUNNING defs \<in> set messages then
        (let s1 = emit (LoadFilesFromArgs messages) s in
         case m_mainForm s1 of
           None \<Rightarrow> Inl NullPointer
         | Some f \<Rightarrow> Inr (emit MainFormDisplay s1))
      else Inr s)"

text \<open>
  \<^verbatim>\<open>onCommitData(manager)\<close>. The session manager is the record below: its answer to
  \<^verbatim>\<open>allowsInteraction()\<close> and the restart hint it holds. The signal \<^verbatim>\<open>dataSaveRequested\<close>
  passes a pointer to a local boolean; \<open>ok\<close> is the value the connected slot has stored
  there when the emit returns (were all documents saved).
\<close>

datatype RestartHint = RestartIfRunning | RestartAnyway | RestartImmediately | RestartNever

record QSessionManager =
  allowsInteraction :: bool
  restartHint :: RestartHint

definition onCommitData :: "bool \<Rightarrow> QSessionManager \<Rightarrow> Application \<Rightarrow> Application \<times> QSessionManager" where
  "onCommitData ok manager s =
     (let manager1 = manager\<lparr>restartHint := RestartNever\<rparr> in
      if allowsInteraction manager1 then
        (let s1 = emit DataSaveRequested s;
             s2 = emit SessionRelease s1
         in if \<not> ok then (emit SessionCancel s2, manager1) else (s2, manager1))
      else (s, manager1))"

text \<open>\<^verbatim>\<open>onSaveState(manager)\<close>.\<close>

definition onSaveState :: "QSessionManager \<Rightarrow> QSessionManager" where
  "onSaveState manager = manager\<lparr>restartHint := RestartNever\<rparr>"

text \<open>An application object as the constructor leaves it, for a given command line.\<close>

definition Application_ctor :: "qstring list \<Rightarrow> Settings \<Rightarrow> Application" where
  "Application_ctor args st =
     \<lparr>arguments = args, m_settings = st, m_mainForm = None, m_trayIcon = None,
      m_shouldRestart = False, m_isQuitting = False, quitOnLastWindowClosed = True,
      trace = []\<rparr>"

text \<open>
  An application started as \<^verbatim>\<open>textosaurus\<close> with empty settings, after \<^verbatim>\<open>setMainForm\<close>
  with the given form: the state concrete runs start from.
\<close>

definition started :: "FormMain option \<Rightarrow> Application" where
  "started main_form = setMainForm main_form (Application_ctor [''textosaurus''] Map.empty)"

section \<open>DockWidget\<close>

text \<open>
  \<^verbatim>\<open>dockwidget.h\<close> declares the class; its member functions are defined in a file that is
  not among the sources. The header makes \<^verbatim>\<open>initialArea()\<close>, \<^verbatim>\<open>initiallyVisible()\<close>,
  \<^verbatim>\<open>initialWidth()\<close> and \<^verbatim>\<open>load()\<close> pure virtual, so a subclass can be instantiated only
  when it overrides all four. A subclass is the record of what it overrides (\<open>None\<close>:
  not overridden; the body of \<^verbatim>\<open>load()\<close> is not modelled, only its presence), and a
  dock widget object carries the three answers of its class and the toolkit's
  visibility flag, which is off for a widget just constructed.
\<close>

datatype DockWidgetArea =
    NoDockWidgetArea
  | LeftDockWidgetArea
  | RightDockWidgetArea
  | TopDockWidgetArea
  | BottomDockWidgetArea
  | AllDockWidgetAreas

record DockWidget_subclass =
  override_initialArea :: "DockWidgetArea option"
  override_initiallyVisible :: "bool option"
  override_initialWidth :: "int option"
  override_load :: "unit option"

record DockWidget =
  initialArea :: DockWidgetArea
  initiallyVisible :: bool
  initialWidth :: int
  isVisible :: bool

definition DockWidget_new :: "DockWidget_subclass \<Rightarrow> DockWidget option" where
  "DockWidget_new c =
     (case override_initialArea c of
        None \<Rightarrow> None
      | Some a \<Rightarrow>
     (case override_initiallyVisible c of
        None \<Rightarrow> None
      | Some v \<Rightarrow>
     (case override_initialWidth c of
        None \<Rightarrow> None
      | Some w \<Rightarrow>
     (case override_load c of
        None \<Rightarrow> None
      | Some u \<Rightarrow>
          Some \<lparr>initialArea = a, initiallyVisible = v, initialWidth = w, isVisible = False\<rparr>))))"

text \<open>
  Modelled from the spec: the body of \<^verbatim>\<open>DockWidget::switchVisibility\<close> is missing (only
  its declaration in \<^verbatim>\<open>dockwidget.h\<close> is at hand). The spec says the dock widget
  "toggles visibility on request".
\<close>

definition switchVisibility :: "DockWidget \<Rightarrow> DockWidget" where
  "switchVisibility w = w\<lparr>isVisible := \<not> isVisible w\<rparr>"

section \<open>MarkdownTextBrowser\<close>

text \<open>
  \<^verbatim>\<open>markdowntextbrowser.h\<close> declares the class with its one field, the base folder of
  the document; the member functions are defined in a file that is not among the
  sources. A resource URL is kept as its scheme and its path, and it is relative when
  it has no scheme.
\<close>

record QUrl =
  scheme :: qstring
  path :: qstring

definition isRelative :: "QUrl \<Rightarrow> bool" where
  "isRelative url = (scheme url = [])"

record MarkdownTextBrowser =
  m_documentBaseFolder :: qstring

text \<open>
  Modelled from the spec: the body of \<^verbatim>\<open>MarkdownTextBrowser::setMarkdownDocument\<close> is
  missing. The spec says the browser "stores a base folder string"; showing the
  contents is the toolkit's work and leaves the field alone.
\<close>

definition setMarkdownDocument :: "qstring \<Rightarrow> qstring \<Rightarrow> MarkdownTextBrowser \<Rightarrow> MarkdownTextBrowser" where
  "setMarkdownDocument base_folder html_contents b = b\<lparr>m_documentBaseFolder := base_folder\<rparr>"

text \<open>
  Modelled from the spec: the body of \<^verbatim>\<open>MarkdownTextBrowser::loadResource\<close> is missing.
  The spec says the browser "resolves relative resource URLs against" the stored base
  folder "when the toolkit requests an embedded resource". Loading a URL resolved
  against a folder is the toolkit's work and a parameter, \<open>load_in\<close>; so is what the
  base class does with a URL that is not relative, \<open>base_loadResource\<close>. The browser
  is returned with the resource, since the member function is not constant.
\<close>

definition loadResource ::
  "(qstring \<Rightarrow> QUrl \<Rightarrow> 'r) \<Rightarrow> (int \<Rightarrow> QUrl \<Rightarrow> 'r) \<Rightarrow> MarkdownTextBrowser \<Rightarrow> int \<Rightarrow> QUrl
     \<Rightarrow> 'r \<times> MarkdownTextBrowser" where
  "loadResource load_in base_loadResource b type name =
     (if isRelative name then (load_in (m_documentBaseFolder b) name, b)
      else (base_loadResource type name, b))"

text \<open>A run of resource requests, each a type and a URL: the resources and the browser left.\<close>

fun loadResource_requests ::
  "(qstring \<Rightarrow> QUrl \<Rightarrow> 'r) \<Rightarrow> (int \<Rightarrow> QUrl \<Rightarrow> 'r) \<Rightarrow> MarkdownTextBrowser \<Rightarrow> (int \<times> QUrl) list
     \<Rightarrow> 'r list \<times> MarkdownTextBrowser" where
  "loadResource_requests load_in base_loadResource b [] = ([], b)"
| "loadResource_requests load_in base_loadResource b ((type, name) # reqs) =
     (case loadResource load_in base_loadResource b type name of (r, b') \<Rightarrow>
        (case loadResource_requests load_in base_loadResource b' reqs of (rs, b'') \<Rightarrow>
           (r # rs, b'')))"

section \<open>Results: ApplicationException\<close>

lemma message_calls_unchanged: "message_calls n e = (replicate n (m_message e), e)"
  by (induction n arbitrary: e) (simp_all add: message_def)

text \<open>
  C3. An exception constructed with the string \<open>s\<close> answers \<open>s\<close> to \<^verbatim>\<open>message()\<close>, and
  the only operation the class has beside the constructor, \<^verbatim>\<open>message()\<close> itself, leaves
  the object as it was: after any number of calls every call has answered \<open>s\<close> and the
  object is still the one constructed.
\<close>

theorem ApplicationException_message_fixed:
  "fst (message (ApplicationException_ctor s)) = s \<and>
   snd (message (ApplicationException_ctor s)) = ApplicationException_ctor s \<and>
   message_calls n (ApplicationException_ctor s) = (replicate n s, ApplicationException_ctor s)"
  by (simp add: message_calls_unchanged message_def ApplicationException_ctor_def)

section \<open>Results: the trace\<close>

lemma new_events_same [simp]: "new_events s s = []"
  by (simp add: new_events_def)

lemma trace_emit [simp]: "trace (emit e s) = trace s @ [e]"
  by (simp add: emit_def)

lemma new_events_emit [simp]: "new_events s (emit e s') = drop (length (trace s)) (trace s' @ [e])"
  by (simp add: new_events_def emit_def)

lemma quitApplication_trace:
  "trace (quitApplication s) =
     trace s @ (case m_mainForm s of None \<Rightarrow> []
                | Some f \<Rightarrow> if close_accepted f then [MainFormClose, Quit] else [MainFormClose])"
  by (simp add: quitApplication_def emit_def Let_def split: option.splits)

lemma new_events_quitApplication:
  "new_events s (quitApplication s) =
     (case m_mainForm s of None \<Rightarrow> []
      | Some f \<Rightarrow> if close_accepted f then [MainFormClose, Quit] else [MainFormClose])"
  by (simp add: new_events_def quitApplication_trace)

section \<open>Results: single-instance messaging\<close>

text \<open>
  C1, as the code has it. The message \<^verbatim>\<open>isRunning()\<close> sends is the is-running token
  followed by the command-line arguments without the program name, joined with the
  separator. It is the one message sent, and the call returns what \<^verbatim>\<open>sendMessage\<close>
  answers to it. No quit-instance token is added.
\<close>

theorem isRunning_message_sent:
  "isRunning_message defs s =
     QStringList_join (ARGUMENTS_LIST_SEPARATOR defs) (APP_IS_RUNNING defs # drop 1 (arguments s)) \<and>
   fst (isRunning defs sendMessage s) = sendMessage (isRunning_message defs s) \<and>
   new_events s (snd (isRunning defs sendMessage s)) = [SendMessage (isRunning_message defs s)]"
  by (simp add: isRunning_def isRunning_message_def QStringList_mid_def new_events_def emit_def)

text \<open>
  C1 as stated fails. Started as \<^verbatim>\<open>textosaurus notes.txt\<close>, the application sends the
  is-running token and \<^verbatim>\<open>notes.txt\<close>. That is not the message with a quit-instance
  token in it, and the quit-instance token is not among the parts the peer gets by
  splitting the message.
\<close>

theorem isRunning_message_counterexample:
  "isRunning_message sample_definitions (Application_ctor [''textosaurus'', ''notes.txt''] Map.empty)
     = ''app_is_running'' @ [CHR 0x0A] @ ''notes.txt'' \<and>
   isRunning_message sample_definitions (Application_ctor [''textosaurus'', ''notes.txt''] Map.empty)
     \<noteq> QStringList_join (ARGUMENTS_LIST_SEPARATOR sample_definitions)
          [APP_IS_RUNNING sample_definitions, APP_QUIT_INSTANCE sample_definitions, ''notes.txt''] \<and>
   APP_QUIT_INSTANCE sample_definitions \<notin>
     set (QString_split (ARGUMENTS_LIST_SEPARATOR sample_definitions)
           (isRunning_message sample_definitions
              (Application_ctor [''textosaurus'', ''notes.txt''] Map.empty)))"
  by (simp add: isRunning_message_def sample_definitions_def Application_ctor_def
      QStringList_mid_def QString_split_def)

text \<open>
  C2, as the code has it. The message is split on the separator and the parts decide.
  With the quit-instance token among them the call is \<^verbatim>\<open>quitApplication()\<close>: no files
  are loaded, and the application quits exactly when there is a main form and it
  agrees to close. Without it and with the is-running token among them, the parts are
  handed to \<^verbatim>\<open>loadFilesFromArgs\<close> and then the main form is displayed (the main form is
  dereferenced, so there has to be one). With neither token nothing happens. The
  first case does not ask for the is-running token, so the quit-instance token wins
  when both are present.
\<close>

theorem processExecutionMessage_dispatch:
  "(APP_QUIT_INSTANCE defs \<in> set (QString_split (ARGUMENTS_LIST_SEPARATOR defs) msg) \<longrightarrow>
      processExecutionMessage defs msg s = Inr (quitApplication s) \<and>
      (\<forall>args. LoadFilesFromArgs args \<notin> set (new_events s (quitApplication s))) \<and>
      (Quit \<in> set (new_events s (quitApplication s)) \<longleftrightarrow>
         (\<exists>f. m_mainForm s = Some f \<and> close_accepted f))) \<and>
   (APP_QUIT_INSTANCE defs \<notin> set (QString_split (ARGUMENTS_LIST_SEPARATOR defs) msg) \<and>
    APP_IS_RUNNING defs \<in> set (QString_split (ARGUMENTS_LIST_SEPARATOR defs) msg) \<and>
    m_mainForm s \<noteq> None \<longrightarrow>
      processExecutionMessage defs msg s =
        Inr (emit MainFormDisplay
               (emit (LoadFilesFromArgs (QString_split (ARGUMENTS_LIST_SEPARATOR defs) msg)) s))) \<and>
   (APP_QUIT_INSTANCE defs \<notin> set (QString_split (ARGUMENTS_LIST_SEPARATOR defs) msg) \<and>
    APP_IS_RUNNING defs \<notin> set (QString_split (ARGUMENTS_LIST_SEPARATOR defs) msg) \<longrightarrow>
      processExecutionMessage defs msg s = Inr s)"
proof (intro conjI impI)
  assume q: "APP_QUIT_INSTANCE defs \<in> set (QString_split (ARGUMENTS_LIST_SEPARATOR defs) msg)"
  then show "processExecutionMessage defs msg s = Inr (quitApplication s)"
    by (simp add: processExecutionMessage_def)
  show "\<forall>args. LoadFilesFromArgs args \<notin> set (new_events s (quitApplication s))"
    by (simp add: new_events_quitApplication split: option.splits)
  show "Quit \<in> set (new_events s (quitApplication s)) \<longleftrightarrow>
         (\<exists>f. m_mainForm s = Some f \<and> close_accepted f)"
    by (cases "m_mainForm s") (simp_all add: new_events_quitApplication)
next
  assume h: "APP_QUIT_INSTANCE defs \<notin> set (QString_split (ARGUMENTS_LIST_SEPARATOR defs) msg) \<and>
    APP_IS_RUNNING defs \<in> set (QString_split (ARGUMENTS_LIST_SEPARATOR defs) msg) \<and>
    m_mainForm s \<noteq> None"
  then obtain f where f: "m_mainForm s = Some f" by auto
  from h f show "processExecutionMessage defs msg s =
        Inr (emit MainFormDisplay
               (emit (LoadFilesFromArgs (QString_split (ARGUMENTS_LIST_SEPARATOR defs) msg)) s))"
    by (simp add: processExecutionMessage_def Let_def emit_def)
next
  assume "APP_QUIT_INSTANCE defs \<notin> set (QString_split (ARGUMENTS_LIST_SEPARATOR defs) msg) \<and>
    APP_IS_RUNNING defs \<notin> set (QString_split (ARGUMENTS_LIST_SEPARATOR defs) msg)"
  then show "processExecutionMessage defs msg s = Inr s"
    by (simp add: processExecutionMessage_def)
qed

text \<open>
  The three cases at concrete messages: both tokens (the application quits), the
  is-running token and a file name, and a message with neither token.
\<close>

theorem processExecutionMessage_dispatch_witness:
  "APP_QUIT_INSTANCE sample_definitions
     \<in> set (QString_split (ARGUMENTS_LIST_SEPARATOR sample_definitions)
              (''app_is_running'' @ [CHR 0x0A] @ ''-q'')) \<and>
   APP_IS_RUNNING sample_definitions
     \<in> set (QString_split (ARGUMENTS_LIST_SEPARATOR sample_definitions)
              (''app_is_running'' @ [CHR 0x0A] @ ''-q'')) \<and>
   processExecutionMessage sample_definitions (''app_is_running'' @ [CHR 0x0A] @ ''-q'')
       (started (Some \<lparr>close_accepted = True\<rparr>))
     = Inr (quitApplication (started (Some \<lparr>close_accepted = True\<rparr>))) \<and>
   Quit \<in> set (new_events (started (Some \<lparr>close_accepted = True\<rparr>))
                 (quitApplication (started (Some \<lparr>close_accepted = True\<rparr>)))) \<and>
   APP_QUIT_INSTANCE sample_definitions
     \<notin> set (QString_split (ARGUMENTS_LIST_SEPARATOR sample_definitions)
              (''app_is_running'' @ [CHR 0x0A] @ ''notes.txt'')) \<and>
   APP_IS_RUNNING sample_definitions
     \<in> set (QString_split (ARGUMENTS_LIST_SEPARATOR sample_definitions)
              (''app_is_running'' @ [CHR 0x0A] @ ''notes.txt'')) \<and>
   m_mainForm (started (Some \<lparr>close_accepted = True\<rparr>)) \<noteq> None \<and>
   processExecutionMessage sample_definitions (''app_is_running'' @ [CHR 0x0A] @ ''notes.txt'')
       (started (Some \<lparr>close_accepted = True\<rparr>))
     = Inr ((started (Some \<lparr>close_accepted = True\<rparr>))
              \<lparr>trace := [LoadFilesFromArgs [''app_is_running'', ''notes.txt''], MainFormDisplay]\<rparr>) \<and>
   APP_QUIT_INSTANCE sample_definitions
     \<notin> set (QString_split (ARGUMENTS_LIST_SEPARATOR sample_definitions) ''notes.txt'') \<and>
   APP_IS_RUNNING sample_definitions
     \<notin> set (QString_split (ARGUMENTS_LIST_SEPARATOR sample_definitions) ''notes.txt'') \<and>
   processExecutionMessage sample_definitions ''notes.txt'' (started None) = Inr (started None)"
  using processExecutionMessage_dispatch [of sample_definitions
      "''app_is_running'' @ [CHR 0x0A] @ ''-q''" "started (Some \<lparr>close_accepted = True\<rparr>)"]
    processExecutionMessage_dispatch [of sample_definitions
      "''app_is_running'' @ [CHR 0x0A] @ ''notes.txt''" "started (Some \<lparr>close_accepted = True\<rparr>)"]
    processExecutionMessage_dispatch [of sample_definitions "''notes.txt''" "started None"]
  by (simp add: sample_definitions_def QString_split_def emit_def
      started_def setMainForm_def Application_ctor_def)

text \<open>
  C2 as stated fails: a message that holds the quit-instance token does not make the
  application quit when the main form refuses to close. The form is asked to close
  and \<^verbatim>\<open>quit()\<close> is not called.
\<close>

theorem processExecutionMessage_counterexample:
  "APP_QUIT_INSTANCE sample_definitions
     \<in> set (QString_split (ARGUMENTS_LIST_SEPARATOR sample_definitions) ''-q'') \<and>
   processExecutionMessage sample_definitions ''-q'' (started (Some \<lparr>close_accepted = False\<rparr>))
     = Inr ((started (Some \<lparr>close_accepted = False\<rparr>))\<lparr>trace := [MainFormClose]\<rparr>) \<and>
   Quit \<notin> set (trace ((started (Some \<lparr>close_accepted = False\<rparr>))\<lparr>trace := [MainFormClose]\<rparr>))"
  by (simp add: processExecutionMessage_def sample_definitions_def QString_split_def
      quitApplication_def emit_def started_def setMainForm_def Application_ctor_def)

section \<open>Results: session commit\<close>

text \<open>
  C4. \<^verbatim>\<open>onCommitData\<close> always sets the restart hint to never-restart. When the session
  manager allows interaction, the data-save request is emitted, the manager is
  released, and the session is cancelled after that exactly when the request
  reported that not all documents were saved. When interaction is not allowed, the
  application is left as it was: no save request, no cancellation.
\<close>

theorem onCommitData_session:
  "restartHint (snd (onCommitData ok manager s)) = RestartNever \<and>
   allowsInteraction (snd (onCommitData ok manager s)) = allowsInteraction manager \<and>
   (allowsInteraction manager \<and> ok \<longrightarrow>
      new_events s (fst (onCommitData ok manager s)) = [DataSaveRequested, SessionRelease]) \<and>
   (allowsInteraction manager \<and> \<not> ok \<longrightarrow>
      new_events s (fst (onCommitData ok manager s))
        = [DataSaveRequested, SessionRelease, SessionCancel]) \<and>
   (\<not> allowsInteraction manager \<longrightarrow> fst (onCommitData ok manager s) = s) \<and>
   (DataSaveRequested \<in> set (new_events s (fst (onCommitData ok manager s)))
      \<longleftrightarrow> allowsInteraction manager) \<and>
   (SessionCancel \<in> set (new_events s (fst (onCommitData ok manager s)))
      \<longleftrightarrow> allowsInteraction manager \<and> \<not> ok)"
  by (simp add: onCommitData_def Let_def new_events_def emit_def)

text \<open>The three cases at a concrete session manager.\<close>

theorem onCommitData_session_witness:
  "allowsInteraction \<lparr>allowsInteraction = True, restartHint = RestartIfRunning\<rparr> \<and>
   new_events (started None)
     (fst (onCommitData True \<lparr>allowsInteraction = True, restartHint = RestartIfRunning\<rparr> (started None)))
     = [DataSaveRequested, SessionRelease] \<and>
   new_events (started None)
     (fst (onCommitData False \<lparr>allowsInteraction = True, restartHint = RestartIfRunning\<rparr> (started None)))
     = [DataSaveRequested, SessionRelease, SessionCancel] \<and>
   \<not> allowsInteraction \<lparr>allowsInteraction = False, restartHint = RestartIfRunning\<rparr> \<and>
   fst (onCommitData False \<lparr>allowsInteraction = False, restartHint = RestartIfRunning\<rparr> (started None))
     = started None \<and>
   restartHint (snd (onCommitData False \<lparr>allowsInteraction = False, restartHint = RestartIfRunning\<rparr>
                       (started None))) = RestartNever"
  using onCommitData_session [of True "\<lparr>allowsInteraction = True, restartHint = RestartIfRunning\<rparr>" "started None"]
    onCommitData_session [of False "\<lparr>allowsInteraction = True, restartHint = RestartIfRunning\<rparr>" "started None"]
    onCommitData_session [of False "\<lparr>allowsInteraction = False, restartHint = RestartIfRunning\<rparr>" "started None"]
  by simp

section \<open>Results: quitting\<close>

text \<open>
  C7. Without a main form \<^verbatim>\<open>quitApplication()\<close> changes nothing. With a main form that
  refuses to close, both the quitting flag and the restart flag are false afterwards,
  whatever they were, and \<^verbatim>\<open>quit()\<close> is not called. With a main form that closes, the
  quitting flag stays raised, the restart flag keeps its value and \<^verbatim>\<open>quit()\<close> is
  called. So the application quits exactly when there is a main form and it closes.
\<close>

theorem quitApplication_flags:
  "(m_mainForm s = None \<longrightarrow> quitApplication s = s) \<and>
   (\<forall>f. m_mainForm s = Some f \<and> \<not> close_accepted f \<longrightarrow>
      \<not> m_isQuitting (quitApplication s) \<and> \<not> m_shouldRestart (quitApplication s) \<and>
      new_events s (quitApplication s) = [MainFormClose]) \<and>
   (\<forall>f. m_mainForm s = Some f \<and> close_accepted f \<longrightarrow>
      m_isQuitting (quitApplication s) \<and>
      m_shouldRestart (quitApplication s) = m_shouldRestart s \<and>
      new_events s (quitApplication s) = [MainFormClose, Quit]) \<and>
   (Quit \<in> set (new_events s (quitApplication s)) \<longleftrightarrow>
      (\<exists>f. m_mainForm s = Some f \<and> close_accepted f))"
proof (cases "m_mainForm s")
  case None
  then show ?thesis
    by (simp add: quitApplication_def new_events_def)
next
  case (Some f)
  show ?thesis
  proof (cases "close_accepted f")
    case True
    with Some show ?thesis
      by (simp add: new_events_quitApplication) (simp add: quitApplication_def emit_def)
  next
    case False
    with Some show ?thesis
      by (simp add: new_events_quitApplication) (simp add: quitApplication_def emit_def)
  qed
qed

text \<open>
  The three cases at concrete states: no main form; a restart pending and a form that
  refuses; a form that closes.
\<close>

theorem quitApplication_flags_witness:
  "m_mainForm (started None) = None \<and>
   quitApplication (started None) = started None \<and>
   m_mainForm (started (Some \<lparr>close_accepted = False\<rparr>)\<lparr>m_shouldRestart := True\<rparr>)
     = Some \<lparr>close_accepted = False\<rparr> \<and>
   \<not> close_accepted \<lparr>close_accepted = False\<rparr> \<and>
   \<not> m_isQuitting (quitApplication (started (Some \<lparr>close_accepted = False\<rparr>)\<lparr>m_shouldRestart := True\<rparr>)) \<and>
   \<not> m_shouldRestart (quitApplication (started (Some \<lparr>close_accepted = False\<rparr>)\<lparr>m_shouldRestart := True\<rparr>)) \<and>
   m_mainForm (started (Some \<lparr>close_accepted = True\<rparr>)) = Some \<lparr>close_accepted = True\<rparr> \<and>
   close_accepted \<lparr>close_accepted = True\<rparr> \<and>
   m_isQuitting (quitApplication (started (Some \<lparr>close_accepted = True\<rparr>))) \<and>
   new_events (started (Some \<lparr>close_accepted = True\<rparr>))
     (quitApplication (started (Some \<lparr>close_accepted = True\<rparr>))) = [MainFormClose, Quit]"
  using quitApplication_flags [of "started None"]
    quitApplication_flags [of "started (Some \<lparr>close_accepted = False\<rparr>)\<lparr>m_shouldRestart := True\<rparr>"]
    quitApplication_flags [of "started (Some \<lparr>close_accepted = True\<rparr>)"]
  by (simp add: started_def setMainForm_def Application_ctor_def)

lemma restart_refused:
  "m_mainForm s = Some f \<Longrightarrow> \<not> close_accepted f \<Longrightarrow>
     \<not> m_shouldRestart (restart s) \<and> \<not> m_isQuitting (restart s)"
  by (simp add: restart_def quitApplication_def emit_def)

section \<open>Results: first run\<close>

text \<open>
  C8. For a version other than the compiled-in one, \<^verbatim>\<open>isFirstRun(version)\<close> is false and
  reads no setting. For the compiled-in version it reads one setting, the first-run
  key with an underscore and the version appended, in the general group; the answer
  is the stored value as a truth value, and true when nothing is stored.
\<close>

theorem isFirstRun_version:
  "(version \<noteq> APP_VERSION defs \<longrightarrow> isFirstRun defs s version = (False, [])) \<and>
   (version = APP_VERSION defs \<longrightarrow>
      snd (isFirstRun defs s version)
        = [(General_ID defs, General_FirstRun defs @ ''_'' @ version)] \<and>
      (\<forall>v. m_settings s (General_ID defs, General_FirstRun defs @ ''_'' @ version) = Some v
         \<longrightarrow> fst (isFirstRun defs s version) = toBool v) \<and>
      (m_settings s (General_ID defs, General_FirstRun defs @ ''_'' @ version) = None
         \<longrightarrow> fst (isFirstRun defs s version) = True))"
  by (simp add: isFirstRun_def Settings_value_def)

text \<open>
  Concrete runs: another version; the compiled-in version on empty settings; the
  compiled-in version after \<^verbatim>\<open>eliminateFirstRun\<close> has stored false for it.
\<close>

theorem isFirstRun_version_witness:
  "''0.9.12'' \<noteq> APP_VERSION sample_definitions \<and>
   isFirstRun sample_definitions (started None) ''0.9.12'' = (False, []) \<and>
   ''0.9.13'' = APP_VERSION sample_definitions \<and>
   m_settings (started None) (''main'', ''first_run_0.9.13'') = None \<and>
   isFirstRun sample_definitions (started None) ''0.9.13''
     = (True, [(''main'', ''first_run_0.9.13'')]) \<and>
   m_settings (eliminateFirstRun sample_definitions ''0.9.13'' (started None))
       (''main'', ''first_run_0.9.13'') = Some (QVBool False) \<and>
   isFirstRun sample_definitions (eliminateFirstRun sample_definitions ''0.9.13'' (started None))
       ''0.9.13''
     = (False, [(''main'', ''first_run_0.9.13'')])"
  using isFirstRun_version [of "''0.9.12''" sample_definitions "started None"]
    isFirstRun_version [of "''0.9.13''" sample_definitions "started None"]
    isFirstRun_version [of "''0.9.13''" sample_definitions
      "eliminateFirstRun sample_definitions ''0.9.13'' (started None)"]
  by (simp add: sample_definitions_def started_def setMainForm_def Application_ctor_def
      eliminateFirstRun_def Settings_setValue_def prod_eq_iff)

section \<open>Results: tray icon\<close>

text \<open>
  C9, as the code has it. \<^verbatim>\<open>deleteTrayIcon()\<close> changes nothing when there is no tray
  icon. When there is one and there is a main form, which the call dereferences, it
  returns with the tray-icon pointer null and quit-on-last-window-closed on. A call
  on the state a call returned changes nothing, so two calls in a row do what one
  call does; that holds for the failing run too, since the first failure ends it.
\<close>

theorem deleteTrayIcon_idempotent:
  "(m_trayIcon s = None \<longrightarrow> deleteTrayIcon s = Inr s) \<and>
   (m_trayIcon s \<noteq> None \<and> m_mainForm s \<noteq> None \<longrightarrow>
      (\<exists>s'. deleteTrayIcon s = Inr s' \<and> m_trayIcon s' = None \<and> quitOnLastWindowClosed s')) \<and>
   (\<forall>s'. deleteTrayIcon s = Inr s' \<longrightarrow> deleteTrayIcon s' = Inr s') \<and>
   deleteTrayIcon_twice s = deleteTrayIcon s"
  by (auto simp add: deleteTrayIcon_def deleteTrayIcon_twice_def emit_def split: option.splits)

text \<open>Concrete runs: no tray icon; a tray icon with quit-on-last-window-closed off.\<close>

theorem deleteTrayIcon_idempotent_witness:
  "m_trayIcon (started None) = None \<and>
   deleteTrayIcon (started None) = Inr (started None) \<and>
   m_trayIcon ((started (Some \<lparr>close_accepted = True\<rparr>))
      \<lparr>m_trayIcon := Some \<lparr>toolTip = ''Textosaurus''\<rparr>, quitOnLastWindowClosed := False\<rparr>) \<noteq> None \<and>
   m_mainForm ((started (Some \<lparr>close_accepted = True\<rparr>))
      \<lparr>m_trayIcon := Some \<lparr>toolTip = ''Textosaurus''\<rparr>, quitOnLastWindowClosed := False\<rparr>) \<noteq> None \<and>
   deleteTrayIcon ((started (Some \<lparr>close_accepted = True\<rparr>))
      \<lparr>m_trayIcon := Some \<lparr>toolTip = ''Textosaurus''\<rparr>, quitOnLastWindowClosed := False\<rparr>)
     = Inr ((started (Some \<lparr>close_accepted = True\<rparr>))\<lparr>trace := [MainFormDisplay, DeleteTrayIcon]\<rparr>) \<and>
   deleteTrayIcon_twice ((started (Some \<lparr>close_accepted = True\<rparr>))
      \<lparr>m_trayIcon := Some \<lparr>toolTip = ''Textosaurus''\<rparr>, quitOnLastWindowClosed := False\<rparr>)
     = Inr ((started (Some \<lparr>close_accepted = True\<rparr>))\<lparr>trace := [MainFormDisplay, DeleteTrayIcon]\<rparr>)"
  using deleteTrayIcon_idempotent [of "started None"]
    deleteTrayIcon_idempotent [of "(started (Some \<lparr>close_accepted = True\<rparr>))
      \<lparr>m_trayIcon := Some \<lparr>toolTip = ''Textosaurus''\<rparr>, quitOnLastWindowClosed := False\<rparr>"]
  by (simp add: started_def setMainForm_def Application_ctor_def deleteTrayIcon_def emit_def)

text \<open>
  C9 as stated fails. With a tray icon and no main form (the form pointer reset by
  \<^verbatim>\<open>setMainForm\<close> after the icon was made), the call dereferences the null main form
  before it touches the tray icon: it does not return, and the tray-icon pointer of
  the state it ran on is still set.
\<close>

theorem deleteTrayIcon_counterexample:
  "m_trayIcon (setMainForm None
      ((started (Some \<lparr>close_accepted = True\<rparr>))\<lparr>m_trayIcon := Some \<lparr>toolTip = ''Textosaurus''\<rparr>\<rparr>))
     = Some \<lparr>toolTip = ''Textosaurus''\<rparr> \<and>
   m_mainForm (setMainForm None
      ((started (Some \<lparr>close_accepted = True\<rparr>))\<lparr>m_trayIcon := Some \<lparr>toolTip = ''Textosaurus''\<rparr>\<rparr>))
     = None \<and>
   deleteTrayIcon (setMainForm None
      ((started (Some \<lparr>close_accepted = True\<rparr>))\<lparr>m_trayIcon := Some \<lparr>toolTip = ''Textosaurus''\<rparr>\<rparr>))
     = Inl NullPointer"
  by (simp add: deleteTrayIcon_def started_def setMainForm_def Application_ctor_def)

section \<open>Results: DockWidget\<close>

text \<open>
  C5. \<^verbatim>\<open>switchVisibility()\<close> toggles the visibility: a hidden dock widget becomes
  visible and a visible one hidden, so two calls restore the widget. A dock widget
  object exists only for a subclass that supplies the dock area, the initial
  visibility and the initial width, and the object answers with what the subclass
  supplied; a subclass that leaves one of them out cannot be instantiated.
\<close>

theorem DockWidget_toggle:
  "isVisible (switchVisibility w) = (\<not> isVisible w) \<and>
   switchVisibility (switchVisibility w) = w \<and>
   (DockWidget_new c = Some w \<longrightarrow>
      override_initialArea c = Some (initialArea w) \<and>
      override_initiallyVisible c = Some (initiallyVisible w) \<and>
      override_initialWidth c = Some (initialWidth w)) \<and>
   (override_initialArea c = None \<or> override_initiallyVisible c = None \<or>
    override_initialWidth c = None \<longrightarrow> DockWidget_new c = None)"
  by (auto simp add: switchVisibility_def DockWidget_new_def split: option.splits)

text \<open>A subclass that supplies everything, and one that leaves out the width.\<close>

theorem DockWidget_toggle_witness:
  "DockWidget_new \<lparr>override_initialArea = Some LeftDockWidgetArea,
       override_initiallyVisible = Some True, override_initialWidth = Some 150,
       override_load = Some ()\<rparr>
     = Some \<lparr>initialArea = LeftDockWidgetArea, initiallyVisible = True, initialWidth = 150,
             isVisible = False\<rparr> \<and>
   isVisible (switchVisibility \<lparr>initialArea = LeftDockWidgetArea, initiallyVisible = True,
                                initialWidth = 150, isVisible = False\<rparr>) \<and>
   override_initialWidth \<lparr>override_initialArea = Some LeftDockWidgetArea,
       override_initiallyVisible = Some True, override_initialWidth = None,
       override_load = Some ()\<rparr> = None \<and>
   DockWidget_new \<lparr>override_initialArea = Some LeftDockWidgetArea,
       override_initiallyVisible = Some True, override_initialWidth = None,
       override_load = Some ()\<rparr> = None"
  using DockWidget_toggle [of "\<lparr>initialArea = LeftDockWidgetArea, initiallyVisible = True,
        initialWidth = 150, isVisible = False\<rparr>"
      "\<lparr>override_initialArea = Some LeftDockWidgetArea,
       override_initiallyVisible = Some True, override_initialWidth = Some 150,
       override_load = Some ()\<rparr>"]
    DockWidget_toggle [of "\<lparr>initialArea = LeftDockWidgetArea, initiallyVisible = True,
        initialWidth = 150, isVisible = False\<rparr>"
      "\<lparr>override_initialArea = Some LeftDockWidgetArea,
       override_initiallyVisible = Some True, override_initialWidth = None,
       override_load = Some ()\<rparr>"]
  by (simp add: DockWidget_new_def)

section \<open>Results: MarkdownTextBrowser\<close>

lemma loadResource_requests_result:
  "loadResource_requests load_in base_load b reqs =
     (map (\<lambda>(type, name). if isRelative name then load_in (m_documentBaseFolder b) name
                            else base_load type name) reqs, b)"
  by (induction reqs arbitrary: b) (auto simp add: loadResource_def)

text \<open>
  C6. \<^verbatim>\<open>setMarkdownDocument\<close> stores the base folder it is given. Resource requests
  leave the browser as it is, so after any run of requests a request for a relative
  URL is still answered by loading the URL resolved against that base folder.
\<close>

theorem MarkdownTextBrowser_resolves:
  "m_documentBaseFolder (setMarkdownDocument base_folder html_contents b) = base_folder \<and>
   snd (loadResource_requests load_in base_load
          (setMarkdownDocument base_folder html_contents b) reqs)
     = setMarkdownDocument base_folder html_contents b \<and>
   (isRelative name \<longrightarrow>
      fst (loadResource load_in base_load
             (snd (loadResource_requests load_in base_load
                     (setMarkdownDocument base_folder html_contents b) reqs)) type name)
        = load_in base_folder name)"
  by (simp add: loadResource_requests_result loadResource_def setMarkdownDocument_def)

text \<open>
  A concrete run, with resolution as joining the folder and the path: after a request
  for an absolute URL, a relative image path is loaded from the document's folder.
\<close>

theorem MarkdownTextBrowser_resolves_witness:
  "isRelative \<lparr>scheme = [], path = ''img/logo.png''\<rparr> \<and>
   fst (loadResource (\<lambda>folder url. folder @ ''/'' @ path url) (\<lambda>type url. path url)
          (snd (loadResource_requests (\<lambda>folder url. folder @ ''/'' @ path url) (\<lambda>type url. path url)
                  (setMarkdownDocument ''/home/user/docs'' ''<img src=img/logo.png>''
                     \<lparr>m_documentBaseFolder = []\<rparr>)
                  [(2, \<lparr>scheme = ''https'', path = ''//example.org/a.png''\<rparr>)]))
          2 \<lparr>scheme = [], path = ''img/logo.png''\<rparr>)
     = ''/home/user/docs/img/logo.png''"
  using MarkdownTextBrowser_resolves [of "''/home/user/docs''" "''<img src=img/logo.png>''"
      "\<lparr>m_documentBaseFolder = []\<rparr>" "\<lambda>folder url. folder @ ''/'' @ path url" "\<lambda>type url. path url"
      "[(2, \<lparr>scheme = ''https'', path = ''//example.org/a.png''\<rparr>)]"
      "\<lparr>scheme = [], path = ''img/logo.png''\<rparr>" 2]
  by (simp add: isRelative_def loadResource_def setMarkdownDocument_def)

end
